theory Spec2Isabelle
  imports Complex_Main
begin

section \<open>PDFNotes: the App component of src/PDFNotes/src/App.tsx\<close>

text \<open>
  The component keeps eight pieces of React state (\<open>useState\<close>), three refs
  (\<open>useRef\<close>) and one effect (\<open>useEffect\<close>) that owns the Fabric.js canvas drawn over
  the rendered page. The embedding is a record of that state, one function per handler
  and per closure of the effect, and a step function for the events the component reacts
  to.

  What is not in the source and is therefore modelled as environment:
  \<^item> the DOM: whether React has attached the \<open>canvas\<close> element and the page container to
    \<open>canvasRef\<close> and \<open>pageRef\<close>, the container's \<open>clientWidth\<close> and \<open>clientHeight\<close>,
    and the \<open>width\<close> and \<open>height\<close> attributes of the canvas element (the JSX gives it
    none, so a fresh element has the HTML default of 300 by 150);
  \<^item> the drawing library: a \<open>fabric.Canvas\<close> is a record of the properties the source
    reads or writes, plus the list of objects (strokes) it holds. Its constructor reads a
    \<open>width\<close> or \<open>height\<close> option of 0 as absent and takes the element's attribute
    instead; the element then has the size of the canvas, and \<open>dispose\<close> leaves the
    element with the size the canvas had (the device pixel ratio is taken as 1).
    \<open>dispose\<close> is recorded in a trace. Whether a new canvas comes with a
    \<open>freeDrawingBrush\<close> depends on the library (the source guards every use with
    \<open>if (canvas.freeDrawingBrush)\<close>), so the brush a new canvas gets is a field of the
    state, \<open>defaultBrush\<close>, and the results about the brush cover both cases;
  \<^item> React: an effect with a dependency array runs after the first render, and after a
    later render if and only if one of the dependencies changed; before it runs again,
    the cleanup function returned by its previous run (if one was returned) is called.
  JavaScript numbers in this component are page numbers and widths; they are modelled
  as \<open>int\<close> (the \<open>NaN\<close> that \<open>parseInt\<close> gives for an empty size field is outside the
  model). The brush opacity is 1 or 0.5, modelled as a \<open>real\<close>.
\<close>

subsection \<open>Data\<close>

datatype tool = Pen | Highlighter | Eraser

text \<open>A \<open>File\<close> object is opaque to the component; it is modelled by its identity.\<close>

type_synonym File = nat

text \<open>A stroke on the canvas: the points of a free-hand path.\<close>

type_synonym stroke = "(int \<times> int) list"

text \<open>\<open>canvas.freeDrawingBrush\<close>: the properties the source assigns. \<open>opacity\<close> and
  \<open>mode\<close> are set through a type assertion and may be absent.\<close>

record brush =
  color :: string
  brushWidth :: int
  opacity :: "real option"
  strokeLineCap :: string
  strokeLineJoin :: string
  mode :: "string option"

record canvas =
  isDrawingMode :: bool
  width :: int
  height :: int
  preserveObjectStacking :: bool
  freeDrawingBrush :: "brush option"
  objects :: "stroke list"

text \<open>The page container behind \<open>pageRef\<close>, as far as the source reads it.\<close>

record page_el =
  clientWidth :: int
  clientHeight :: int

text \<open>The \<open>canvas\<close> element behind \<open>canvasRef\<close>: its \<open>width\<close> and \<open>height\<close>
  attributes.\<close>

record canvas_el =
  elWidth :: int
  elHeight :: int

text \<open>Lifecycle events of drawing surfaces, in the order they happen: the construction
  of a canvas, with the \<open>width\<close> and \<open>height\<close> options passed to the constructor,
  and its disposal.\<close>

datatype lifecycle = Created int int | Disposed

record app =
  file' :: "File option"
  numPages :: int
  currentPage :: int
  annotationMode :: "tool option"
  penColor :: string
  penSize :: int
  highlighterColor :: string
  highlighterSize :: int
  canvasRef :: bool
  pageRef :: "page_el option"
  fabricRef :: "canvas option"
  effectLive :: bool
  trace :: "lifecycle list"
  defaultBrush :: "brush option"
  canvasEl :: canvas_el
  fabricOnRef :: bool

text \<open>
  \<open>canvasRef s\<close> says that \<open>canvasRef.current\<close> is an element. \<open>effectLive s\<close> says that
  the last run of the effect went past its guard: \<open>handleResize\<close> is registered on the
  window and React holds the cleanup function that run returned. \<open>canvasEl s\<close> holds
  the attributes of the element behind \<open>canvasRef\<close> as the next constructor call will
  read them, and \<open>fabricOnRef s\<close> says that the canvas in \<open>fabricRef\<close> was built on
  that very element (and not on one that React has since replaced).
\<close>

subsection \<open>Handlers (lines 26 to 44)\<close>

text \<open>\<open>e.target.files?.[0]\<close>: \<open>files\<close> is a list of files or null.\<close>

definition selectedFile :: "File list option \<Rightarrow> File option" where
  "selectedFile files = (case files of None \<Rightarrow> None | Some [] \<Rightarrow> None | Some (f # _) \<Rightarrow> Some f)"

definition onFileChange :: "File list option \<Rightarrow> app \<Rightarrow> app" where
  "onFileChange files s =
     (case selectedFile files of
        Some f \<Rightarrow> s\<lparr>file' := Some f, currentPage := 1\<rparr>
      | None \<Rightarrow> s)"

definition onDocumentLoadSuccess :: "int \<Rightarrow> app \<Rightarrow> app" where
  "onDocumentLoadSuccess n s = s\<lparr>numPages := n\<rparr>"

definition handlePageChange :: "int \<Rightarrow> app \<Rightarrow> app" where
  "handlePageChange newPage s = s\<lparr>currentPage := newPage\<rparr>"

definition handleAnnotationToolSelect :: "tool \<Rightarrow> app \<Rightarrow> app" where
  "handleAnnotationToolSelect t s = s\<lparr>annotationMode := Some t\<rparr>"

subsection \<open>The effect (lines 47 to 115)\<close>

text \<open>\<open>new fabric.Canvas(el, {isDrawingMode: true, width, height,
  preserveObjectStacking: true})\<close>: a canvas with no objects and the library's brush. The
  library takes \<open>width || el.width || 0\<close> as the width, and the height likewise.\<close>

definition new_Canvas :: "brush option \<Rightarrow> canvas_el \<Rightarrow> int \<Rightarrow> int \<Rightarrow> canvas" where
  "new_Canvas lib el w h =
     \<lparr>isDrawingMode = True,
      width = (if w \<noteq> 0 then w else if elWidth el \<noteq> 0 then elWidth el else 0),
      height = (if h \<noteq> 0 then h else if elHeight el \<noteq> 0 then elHeight el else 0),
      preserveObjectStacking = True,
      freeDrawingBrush = lib, objects = []\<rparr>"

text \<open>\<open>canvas.dispose()\<close>: recorded in the trace; the element the canvas was built on
  is left with the size of the canvas.\<close>

definition dispose :: "canvas \<Rightarrow> app \<Rightarrow> app" where
  "dispose c s =
     s\<lparr>trace := trace s @ [Disposed],
       canvasEl := (if fabricOnRef s then \<lparr>elWidth = width c, elHeight = height c\<rparr>
                    else canvasEl s)\<rparr>"

text \<open>\<open>updateDrawingMode\<close> (lines 65 to 92), on the canvas held by \<open>fabricRef\<close>.\<close>

definition updateDrawingMode :: "app \<Rightarrow> app" where
  "updateDrawingMode s =
     (case fabricRef s of
        None \<Rightarrow> s
      | Some canvas0 \<Rightarrow>
          let canvas = canvas0\<lparr>isDrawingMode := False\<rparr> in
          if annotationMode s = Some Pen \<or> annotationMode s = Some Highlighter then
            let canvas = canvas\<lparr>isDrawingMode := True\<rparr> in
            (case freeDrawingBrush canvas of
               None \<Rightarrow> s\<lparr>fabricRef := Some canvas\<rparr>
             | Some b \<Rightarrow>
                 s\<lparr>fabricRef := Some (canvas\<lparr>freeDrawingBrush := Some (b
                   \<lparr>color := (if annotationMode s = Some Pen then penColor s else highlighterColor s),
                    brushWidth := (if annotationMode s = Some Pen then penSize s else highlighterSize s),
                    opacity := Some (if annotationMode s = Some Pen then 1 else 1 / 2),
                    strokeLineCap := ''round'',
                    strokeLineJoin := ''round''\<rparr>)\<rparr>)\<rparr>)
          else if annotationMode s = Some Eraser then
            let canvas = canvas\<lparr>isDrawingMode := True\<rparr> in
            (case freeDrawingBrush canvas of
               None \<Rightarrow> s\<lparr>fabricRef := Some canvas\<rparr>
             | Some b \<Rightarrow>
                 s\<lparr>fabricRef := Some (canvas\<lparr>freeDrawingBrush := Some (b
                   \<lparr>mode := Some ''erase'', brushWidth := 20\<rparr>)\<rparr>)\<rparr>)
          else s\<lparr>fabricRef := Some (canvas\<lparr>isDrawingMode := False\<rparr>)\<rparr>)"

text \<open>\<open>handleResize\<close> (lines 99 to 104).\<close>

definition handleResize :: "app \<Rightarrow> app" where
  "handleResize s =
     (case fabricRef s of
        None \<Rightarrow> s
      | Some c \<Rightarrow>
          (case pageRef s of
             None \<Rightarrow> s
           | Some p \<Rightarrow> s\<lparr>fabricRef := Some (c\<lparr>width := clientWidth p, height := clientHeight p\<rparr>)\<rparr>))"

text \<open>The body of the effect: the guard of line 48, the reset of lines 51 to 53, the
  new canvas, \<open>updateDrawingMode()\<close>, and the registration of \<open>handleResize\<close>. A run
  that stops at the guard returns no cleanup function.\<close>

definition effect_body :: "app \<Rightarrow> app" where
  "effect_body s =
     (case pageRef s of
        None \<Rightarrow> s
      | Some p \<Rightarrow>
          if \<not> canvasRef s then s
          else
            let s1 = (case fabricRef s of
                        None \<Rightarrow> s
                      | Some c0 \<Rightarrow> dispose c0 s);
                c = new_Canvas (defaultBrush s1) (canvasEl s1) (clientWidth p) (clientHeight p);
                s2 = s1\<lparr>fabricRef := Some c,
                        trace := trace s1 @ [Created (clientWidth p) (clientHeight p)],
                        canvasEl := \<lparr>elWidth = width c, elHeight = height c\<rparr>,
                        fabricOnRef := True\<rparr>;
                s3 = updateDrawingMode s2
            in s3\<lparr>effectLive := True\<rparr>)"

text \<open>The cleanup function returned at lines 108 to 114.\<close>

definition effect_cleanup :: "app \<Rightarrow> app" where
  "effect_cleanup s =
     (let s1 = s\<lparr>effectLive := False\<rparr> in
      case fabricRef s1 of
        None \<Rightarrow> s1
      | Some c \<Rightarrow> (dispose c s1)\<lparr>fabricRef := None\<rparr>)"

text \<open>The dependency array of line 115.\<close>

definition deps :: "app \<Rightarrow> tool option \<times> string \<times> int \<times> string \<times> int \<times> int" where
  "deps s = (annotationMode s, penColor s, penSize s, highlighterColor s, highlighterSize s,
             currentPage s)"

text \<open>React after a handler has taken the state from \<open>old\<close> to \<open>new\<close>: the effect runs
  again only if a dependency changed, after the cleanup of its previous run.\<close>

definition commit :: "app \<Rightarrow> app \<Rightarrow> app" where
  "commit old new =
     (if deps new = deps old then new
      else effect_body (if effectLive new then effect_cleanup new else new))"

text \<open>The state after the first render: the initial values of lines 13 to 24, no
  element attached yet, and the effect run once.\<close>

definition init :: "brush option \<Rightarrow> app" where
  "init lib = effect_body
     \<lparr>file' = None, numPages = 0, currentPage = 1, annotationMode = None,
      penColor = ''#000000'', penSize = 2, highlighterColor = ''#FFFF00'', highlighterSize = 10,
      canvasRef = False, pageRef = None, fabricRef = None, effectLive = False, trace = [],
      defaultBrush = lib, canvasEl = \<lparr>elWidth = 300, elHeight = 150\<rparr>,
      fabricOnRef = False\<rparr>"

subsection \<open>Events\<close>

text \<open>
  The user's events follow the JSX of lines 117 to 235: the toolbar, the document and
  the page controls exist only while \<open>file\<close> is set; a colour or size input is disabled
  unless its tool is active; the previous button is disabled when
  \<open>currentPage === 1\<close> and the next button when \<open>currentPage === numPages\<close>. An
  event on an element that does not exist or is disabled does nothing.
  The environment's events: React attaches or detaches the canvas and the page
  container (only rendered while \<open>file\<close> is set), the window is resized (the container
  is laid out again, then the registered listener runs), and the drawing library adds a
  finished free-hand path to a canvas in drawing mode that has a brush. \<open>DomAttach w h\<close>
  says that the container now measures \<open>w\<close> by \<open>h\<close>; if no canvas element was
  attached, a fresh one (300 by 150) is.
\<close>

datatype event =
    FileChange "File list option"
  | LoadSuccess int
  | ClickPrev
  | ClickNext
  | SelectTool tool
  | SetPenColor string
  | SetPenSize int
  | SetHighlighterColor string
  | SetHighlighterSize int
  | DomAttach int int
  | DomDetach
  | WindowResize int int
  | Draw stroke

text \<open>A call \<open>handlePageChange(p)\<close> followed by React's re-render: the page-change
  operation as a whole.\<close>

definition goToPage :: "int \<Rightarrow> app \<Rightarrow> app" where
  "goToPage p s = commit s (handlePageChange p s)"

text \<open>The two page buttons of lines 214 to 228 with their \<open>disabled\<close> attributes.\<close>

definition clickPrev :: "app \<Rightarrow> app" where
  "clickPrev s =
     (if file' s = None \<or> currentPage s = 1 then s else goToPage (currentPage s - 1) s)"

definition clickNext :: "app \<Rightarrow> app" where
  "clickNext s =
     (if file' s = None \<or> currentPage s = numPages s then s else goToPage (currentPage s + 1) s)"

text \<open>A tool button of the toolbar (lines 139 to 194).\<close>

definition selectTool :: "tool \<Rightarrow> app \<Rightarrow> app" where
  "selectTool t s = (if file' s = None then s else commit s (handleAnnotationToolSelect t s))"

text \<open>A resize of the window: the page container, if attached, now measures \<open>w\<close> by
  \<open>h\<close>, and \<open>handleResize\<close> runs if it is registered.\<close>

definition windowResize :: "int \<Rightarrow> int \<Rightarrow> app \<Rightarrow> app" where
  "windowResize w h s =
     (let s1 = (case pageRef s of
                  None \<Rightarrow> s
                | Some _ \<Rightarrow> s\<lparr>pageRef := Some \<lparr>clientWidth = w, clientHeight = h\<rparr>\<rparr>)
      in if effectLive s1 then handleResize s1 else s1)"

text \<open>The drawing library adds the path the user has drawn to the objects of the canvas.
  No function of the source does this; the event only serves to reach states whose surface
  holds strokes.\<close>

definition draw :: "stroke \<Rightarrow> app \<Rightarrow> app" where
  "draw st s =
     (case fabricRef s of
        None \<Rightarrow> s
      | Some c \<Rightarrow>
          if isDrawingMode c \<and> freeDrawingBrush c \<noteq> None
          then s\<lparr>fabricRef := Some (c\<lparr>objects := objects c @ [st]\<rparr>)\<rparr>
          else s)"

fun step :: "event \<Rightarrow> app \<Rightarrow> app" where
  "step (FileChange files) s = commit s (onFileChange files s)"
| "step (LoadSuccess n) s = (if file' s = None then s else commit s (onDocumentLoadSuccess n s))"
| "step ClickPrev s = clickPrev s"
| "step ClickNext s = clickNext s"
| "step (SelectTool t) s = selectTool t s"
| "step (SetPenColor c) s =
     (if file' s = None \<or> annotationMode s \<noteq> Some Pen then s else commit s (s\<lparr>penColor := c\<rparr>))"
| "step (SetPenSize n) s =
     (if file' s = None \<or> annotationMode s \<noteq> Some Pen then s else commit s (s\<lparr>penSize := n\<rparr>))"
| "step (SetHighlighterColor c) s =
     (if file' s = None \<or> annotationMode s \<noteq> Some Highlighter then s
      else commit s (s\<lparr>highlighterColor := c\<rparr>))"
| "step (SetHighlighterSize n) s =
     (if file' s = None \<or> annotationMode s \<noteq> Some Highlighter then s
      else commit s (s\<lparr>highlighterSize := n\<rparr>))"
| "step (DomAttach w h) s =
     (if file' s = None then s
      else if canvasRef s then s\<lparr>pageRef := Some \<lparr>clientWidth = w, clientHeight = h\<rparr>\<rparr>
      else s\<lparr>canvasRef := True, pageRef := Some \<lparr>clientWidth = w, clientHeight = h\<rparr>,
             canvasEl := \<lparr>elWidth = 300, elHeight = 150\<rparr>\<rparr>)"
| "step DomDetach s = s\<lparr>canvasRef := False, pageRef := None, fabricOnRef := False\<rparr>"
| "step (WindowResize w h) s = windowResize w h s"
| "step (Draw st) s = draw st s"

text \<open>A run of events, first event first.\<close>

fun run :: "event list \<Rightarrow> app \<Rightarrow> app" where
  "run [] s = s"
| "run (e # es) s = run es (step e s)"

subsection \<open>Predicates on states\<close>

text \<open>The page number lies within the reported page count.\<close>

definition pageInRange :: "app \<Rightarrow> bool" where
  "pageInRange s = (1 \<le> currentPage s \<and> currentPage s \<le> numPages s)"

text \<open>The events that change the tool configuration: a tool button, or one of the four
  colour and size inputs.\<close>

fun toolConfigEvent :: "event \<Rightarrow> bool" where
  "toolConfigEvent (SelectTool _) = True"
| "toolConfigEvent (SetPenColor _) = True"
| "toolConfigEvent (SetPenSize _) = True"
| "toolConfigEvent (SetHighlighterColor _) = True"
| "toolConfigEvent (SetHighlighterSize _) = True"
| "toolConfigEvent _ = False"

text \<open>Two invariants of the states the component reaches. The first: the cleanup is
  pending exactly while \<open>fabricRef\<close> holds a canvas, and that canvas is configured for
  the current tool settings (running \<open>updateDrawingMode\<close> again would change nothing).
  The second: a canvas has a brush exactly if the library installs one.\<close>

definition surfaceConsistent :: "app \<Rightarrow> bool" where
  "surfaceConsistent s =
     (effectLive s = (fabricRef s \<noteq> None) \<and> fabricRef (updateDrawingMode s) = fabricRef s)"


text \<open>The number of surfaces created and not yet disposed, read off the lifecycle
  trace; and the statement that it is 1 while \<open>fabricRef\<close> holds a canvas and 0
  otherwise.\<close>

fun liveSurfaces :: "lifecycle list \<Rightarrow> int" where
  "liveSurfaces [] = 0"
| "liveSurfaces (Created _ _ # t) = liveSurfaces t + 1"
| "liveSurfaces (Disposed # t) = liveSurfaces t - 1"

definition noLeak :: "app \<Rightarrow> bool" where
  "noLeak s = (liveSurfaces (trace s) = (if fabricRef s = None then 0 else 1))"

subsection \<open>Example sessions\<close>

text \<open>A library brush, and sessions that start from the first render. In all of them
  the user picks file 7; in most the document then reports 3 pages and the page container
  is attached at 600 by 800.\<close>

definition pencilBrush :: brush where
  "pencilBrush = \<lparr>color = ''rgb(0, 0, 0)'', brushWidth = 1, opacity = None,
     strokeLineCap = ''round'', strokeLineJoin = ''round'', mode = None\<rparr>"

definition session_selected :: app where
  "session_selected = run [FileChange (Some [7])] (init (Some pencilBrush))"

definition session_loaded :: app where
  "session_loaded =
     run [FileChange (Some [7]), LoadSuccess 3, DomAttach 600 800] (init (Some pencilBrush))"

definition session_pen :: app where
  "session_pen =
     run [FileChange (Some [7]), LoadSuccess 3, DomAttach 600 800, SelectTool Pen]
       (init (Some pencilBrush))"

definition session_drawn :: app where
  "session_drawn =
     run [FileChange (Some [7]), LoadSuccess 3, DomAttach 600 800, SelectTool Pen,
          Draw [(10, 10), (20, 25)]]
       (init (Some pencilBrush))"

definition session_highlighter :: app where
  "session_highlighter =
     run [FileChange (Some [7]), LoadSuccess 3, DomAttach 600 800, SelectTool Pen,
          SetPenColor ''#FF0000'', SetPenSize 5, SelectTool Highlighter]
       (init (Some pencilBrush))"


text \<open>The user goes to page 3 of file 7, then picks file 8 and pages forward twice
  before the new document has reported its page count.\<close>

definition session_stale :: app where
  "session_stale =
     run [FileChange (Some [7]), LoadSuccess 3, DomAttach 600 800, ClickNext, ClickNext,
          FileChange (Some [8]), ClickNext, ClickNext]
       (init (Some pencilBrush))"

text \<open>The page container is attached before layout, with zero size.\<close>

definition session_zero :: app where
  "session_zero =
     run [FileChange (Some [7]), LoadSuccess 3, DomAttach 0 0, SelectTool Pen]
       (init (Some pencilBrush))"

text \<open>The user selects the pen before the document has rendered its page, so the
  effect stops at its guard; the elements are attached afterwards.\<close>

definition session_skipped :: app where
  "session_skipped =
     run [FileChange (Some [7]), SelectTool Pen, LoadSuccess 3, DomAttach 600 800]
       (init (Some pencilBrush))"

text \<open>The page container is attached before layout and no tool has been selected yet.\<close>

definition session_unlaid :: app where
  "session_unlaid =
     run [FileChange (Some [7]), LoadSuccess 3, DomAttach 0 0] (init (Some pencilBrush))"




section \<open>Lemmas\<close>

subsection \<open>What each function leaves alone\<close>

lemmas handler_defs = onFileChange_def selectedFile_def onDocumentLoadSuccess_def
  handlePageChange_def handleAnnotationToolSelect_def

lemma updateDrawingMode_frame [simp]:
  "file' (updateDrawingMode s) = file' s"
  "numPages (updateDrawingMode s) = numPages s"
  "currentPage (updateDrawingMode s) = currentPage s"
  "annotationMode (updateDrawingMode s) = annotationMode s"
  "penColor (updateDrawingMode s) = penColor s"
  "penSize (updateDrawingMode s) = penSize s"
  "highlighterColor (updateDrawingMode s) = highlighterColor s"
  "highlighterSize (updateDrawingMode s) = highlighterSize s"
  "canvasRef (updateDrawingMode s) = canvasRef s"
  "pageRef (updateDrawingMode s) = pageRef s"
  "effectLive (updateDrawingMode s) = effectLive s"
  "trace (updateDrawingMode s) = trace s"
  "defaultBrush (updateDrawingMode s) = defaultBrush s"
  "canvasEl (updateDrawingMode s) = canvasEl s"
  "fabricOnRef (updateDrawingMode s) = fabricOnRef s"
  by (simp_all add: updateDrawingMode_def Let_def split: option.splits)

lemma effect_cleanup_frame [simp]:
  "file' (effect_cleanup s) = file' s"
  "numPages (effect_cleanup s) = numPages s"
  "currentPage (effect_cleanup s) = currentPage s"
  "annotationMode (effect_cleanup s) = annotationMode s"
  "penColor (effect_cleanup s) = penColor s"
  "penSize (effect_cleanup s) = penSize s"
  "highlighterColor (effect_cleanup s) = highlighterColor s"
  "highlighterSize (effect_cleanup s) = highlighterSize s"
  "canvasRef (effect_cleanup s) = canvasRef s"
  "pageRef (effect_cleanup s) = pageRef s"
  "defaultBrush (effect_cleanup s) = defaultBrush s"
  "fabricRef (effect_cleanup s) = None"
  "effectLive (effect_cleanup s) = False"
  "fabricOnRef (effect_cleanup s) = fabricOnRef s"
  by (simp_all add: effect_cleanup_def dispose_def Let_def split: option.splits)

lemma effect_body_frame [simp]:
  "file' (effect_body s) = file' s"
  "numPages (effect_body s) = numPages s"
  "currentPage (effect_body s) = currentPage s"
  "annotationMode (effect_body s) = annotationMode s"
  "penColor (effect_body s) = penColor s"
  "penSize (effect_body s) = penSize s"
  "highlighterColor (effect_body s) = highlighterColor s"
  "highlighterSize (effect_body s) = highlighterSize s"
  "canvasRef (effect_body s) = canvasRef s"
  "pageRef (effect_body s) = pageRef s"
  "defaultBrush (effect_body s) = defaultBrush s"
  by (simp_all add: effect_body_def dispose_def Let_def split: option.splits)

lemma commit_frame [simp]:
  "file' (commit old new) = file' new"
  "numPages (commit old new) = numPages new"
  "currentPage (commit old new) = currentPage new"
  "annotationMode (commit old new) = annotationMode new"
  "penColor (commit old new) = penColor new"
  "penSize (commit old new) = penSize new"
  "highlighterColor (commit old new) = highlighterColor new"
  "highlighterSize (commit old new) = highlighterSize new"
  "canvasRef (commit old new) = canvasRef new"
  "pageRef (commit old new) = pageRef new"
  "defaultBrush (commit old new) = defaultBrush new"
  by (simp_all add: commit_def)

lemma commit_same [simp]: "commit s s = s"
  by (simp add: commit_def)

lemma goToPage_frame [simp]:
  "file' (goToPage p s) = file' s"
  "numPages (goToPage p s) = numPages s"
  "currentPage (goToPage p s) = p"
  by (simp_all add: goToPage_def handlePageChange_def)

lemma goToPage_same: "goToPage (currentPage s) s = s"
  by (simp add: goToPage_def handlePageChange_def)

lemma commit_deps [simp]: "deps (commit old new) = deps new"
  by (simp add: deps_def)

lemma step_defaultBrush [simp]: "defaultBrush (step e s) = defaultBrush s"
  by (cases e) (auto simp add: clickPrev_def clickNext_def goToPage_def selectTool_def
      windowResize_def handleResize_def draw_def Let_def handler_defs
      split: option.splits list.splits)

lemma run_defaultBrush [simp]: "defaultBrush (run es s) = defaultBrush s"
  by (induction es arbitrary: s) simp_all

subsection \<open>The first render\<close>

lemma init_eq: "init lib = \<lparr>file' = None, numPages = 0, currentPage = 1, annotationMode = None,
      penColor = ''#000000'', penSize = 2, highlighterColor = ''#FFFF00'', highlighterSize = 10,
      canvasRef = False, pageRef = None, fabricRef = None, effectLive = False, trace = [],
      defaultBrush = lib, canvasEl = \<lparr>elWidth = 300, elHeight = 150\<rparr>,
      fabricOnRef = False\<rparr>"
  by (simp add: init_def effect_body_def)

subsection \<open>Page numbers\<close>

lemma step_currentPage_lower: "1 \<le> currentPage s \<Longrightarrow> 1 \<le> currentPage (step e s)"
  by (cases e) (auto simp add: clickPrev_def clickNext_def selectTool_def windowResize_def
      handleResize_def draw_def onFileChange_def selectedFile_def onDocumentLoadSuccess_def
      handleAnnotationToolSelect_def Let_def split: option.splits list.splits)

lemma run_currentPage_lower: "1 \<le> currentPage s \<Longrightarrow> 1 \<le> currentPage (run es s)"
  by (induction es arbitrary: s) (simp_all add: step_currentPage_lower)

subsection \<open>One run of the effect\<close>

lemma updateDrawingMode_objects:
  "map_option objects (fabricRef (updateDrawingMode s)) = map_option objects (fabricRef s)"
  by (simp add: updateDrawingMode_def Let_def split: option.splits)

lemma updateDrawingMode_size:
  "map_option width (fabricRef (updateDrawingMode s)) = map_option width (fabricRef s)"
  "map_option height (fabricRef (updateDrawingMode s)) = map_option height (fabricRef s)"
  by (simp_all add: updateDrawingMode_def Let_def split: option.splits)

lemma effect_body_skip: "\<not> canvasRef s \<or> pageRef s = None \<Longrightarrow> effect_body s = s"
  by (auto simp add: effect_body_def split: option.splits)

lemma effect_body_trace:
  "canvasRef s \<Longrightarrow> pageRef s = Some p \<Longrightarrow>
   trace (effect_body s) =
     trace s @ (if fabricRef s = None then [] else [Disposed]) @ [Created (clientWidth p) (clientHeight p)]"
  by (auto simp add: effect_body_def dispose_def Let_def split: option.splits)

text \<open>A run of the effect that passes the guard, spelled out: the state before
  \<open>updateDrawingMode\<close> and the new canvas.\<close>

lemma effect_body_run:
  assumes "canvasRef s" "pageRef s = Some p"
  obtains s1 c where
    "s1 = (case fabricRef s of None \<Rightarrow> s | Some c0 \<Rightarrow> dispose c0 s)"
    "c = new_Canvas (defaultBrush s) (canvasEl s1) (clientWidth p) (clientHeight p)"
    "effect_body s =
       (updateDrawingMode (s1\<lparr>fabricRef := Some c,
          trace := trace s1 @ [Created (clientWidth p) (clientHeight p)],
          canvasEl := \<lparr>elWidth = width c, elHeight = height c\<rparr>,
          fabricOnRef := True\<rparr>))\<lparr>effectLive := True\<rparr>"
proof -
  define s1 where "s1 = (case fabricRef s of None \<Rightarrow> s | Some c0 \<Rightarrow> dispose c0 s)"
  define c where "c = new_Canvas (defaultBrush s) (canvasEl s1) (clientWidth p) (clientHeight p)"
  have d: "defaultBrush s1 = defaultBrush s"
    by (simp add: s1_def dispose_def split: option.splits)
  have "effect_body s =
       (updateDrawingMode (s1\<lparr>fabricRef := Some c,
          trace := trace s1 @ [Created (clientWidth p) (clientHeight p)],
          canvasEl := \<lparr>elWidth = width c, elHeight = height c\<rparr>,
          fabricOnRef := True\<rparr>))\<lparr>effectLive := True\<rparr>"
    using assms d by (simp add: effect_body_def Let_def s1_def c_def)
  with s1_def c_def that show thesis by blast
qed

lemma effect_body_fresh:
  assumes "canvasRef s" "pageRef s = Some p"
  shows "\<exists>c. fabricRef (effect_body s) = Some c \<and> objects c = []"
proof -
  from effect_body_run[OF assms] obtain s1 c where
    c: "c = new_Canvas (defaultBrush s) (canvasEl s1) (clientWidth p) (clientHeight p)" and
    e: "effect_body s =
       (updateDrawingMode (s1\<lparr>fabricRef := Some c,
          trace := trace s1 @ [Created (clientWidth p) (clientHeight p)],
          canvasEl := \<lparr>elWidth = width c, elHeight = height c\<rparr>,
          fabricOnRef := True\<rparr>))\<lparr>effectLive := True\<rparr>"
    by blast
  let ?s2 = "s1\<lparr>fabricRef := Some c,
          trace := trace s1 @ [Created (clientWidth p) (clientHeight p)],
          canvasEl := \<lparr>elWidth = width c, elHeight = height c\<rparr>,
          fabricOnRef := True\<rparr>"
  have "map_option objects (fabricRef (updateDrawingMode ?s2)) = Some []"
    by (simp add: updateDrawingMode_objects c new_Canvas_def)
  with e show ?thesis by auto
qed

lemma effect_body_surface:
  assumes "canvasRef s" "pageRef s = Some p"
  shows "\<exists>c. fabricRef (effect_body s) = Some c \<and> objects c = [] \<and>
       (clientWidth p \<noteq> 0 \<longrightarrow> width c = clientWidth p) \<and>
       (clientHeight p \<noteq> 0 \<longrightarrow> height c = clientHeight p) \<and>
       (clientWidth p = 0 \<and> fabricRef s = None \<longrightarrow> width c = elWidth (canvasEl s)) \<and>
       (clientHeight p = 0 \<and> fabricRef s = None \<longrightarrow> height c = elHeight (canvasEl s))"
proof -
  from effect_body_run[OF assms] obtain s1 c where
    s1: "s1 = (case fabricRef s of None \<Rightarrow> s | Some c0 \<Rightarrow> dispose c0 s)" and
    c: "c = new_Canvas (defaultBrush s) (canvasEl s1) (clientWidth p) (clientHeight p)" and
    e: "effect_body s =
       (updateDrawingMode (s1\<lparr>fabricRef := Some c,
          trace := trace s1 @ [Created (clientWidth p) (clientHeight p)],
          canvasEl := \<lparr>elWidth = width c, elHeight = height c\<rparr>,
          fabricOnRef := True\<rparr>))\<lparr>effectLive := True\<rparr>"
    by blast
  let ?s2 = "s1\<lparr>fabricRef := Some c,
          trace := trace s1 @ [Created (clientWidth p) (clientHeight p)],
          canvasEl := \<lparr>elWidth = width c, elHeight = height c\<rparr>,
          fabricOnRef := True\<rparr>"
  have o: "map_option objects (fabricRef (updateDrawingMode ?s2)) = Some []"
    by (simp add: updateDrawingMode_objects c new_Canvas_def)
  have w: "map_option width (fabricRef (updateDrawingMode ?s2)) = Some (width c)"
    and h: "map_option height (fabricRef (updateDrawingMode ?s2)) = Some (height c)"
    by (simp_all add: updateDrawingMode_size)
  have n: "fabricRef s = None \<longrightarrow> canvasEl s1 = canvasEl s"
    by (simp add: s1)
  from o w h e obtain c' where
    c': "fabricRef (effect_body s) = Some c'" "objects c' = []" "width c' = width c"
      "height c' = height c"
    by auto
  moreover have "clientWidth p \<noteq> 0 \<longrightarrow> width c = clientWidth p"
    "clientHeight p \<noteq> 0 \<longrightarrow> height c = clientHeight p"
    "clientWidth p = 0 \<and> fabricRef s = None \<longrightarrow> width c = elWidth (canvasEl s)"
    "clientHeight p = 0 \<and> fabricRef s = None \<longrightarrow> height c = elHeight (canvasEl s)"
    using n by (auto simp add: c new_Canvas_def)
  ultimately show ?thesis by auto
qed

lemma effect_body_live: "canvasRef s \<Longrightarrow> pageRef s = Some p \<Longrightarrow> effectLive (effect_body s)"
  by (simp add: effect_body_def Let_def split: option.splits)

lemma commit_changed_live:
  assumes "deps new \<noteq> deps old" "effectLive new" "fabricRef new \<noteq> None"
  shows "commit old new = effect_body ((effect_cleanup new))"
    and "trace (effect_cleanup new) = trace new @ [Disposed]"
  using assms by (auto simp add: commit_def effect_cleanup_def dispose_def Let_def split: option.splits)

lemma commit_changed_idle:
  assumes "deps new \<noteq> deps old" "\<not> effectLive new"
  shows "commit old new = effect_body new"
  using assms by (simp add: commit_def)

lemma commit_discards:
  assumes "deps new \<noteq> deps old" "effectLive new" "fabricRef new \<noteq> None"
  shows "take (Suc (length (trace new))) (trace (commit old new)) = trace new @ [Disposed]"
    and "map_option objects (fabricRef (commit old new)) = map_option (\<lambda>_. []) (fabricRef (commit old new))"
proof -
  let ?m = "effect_cleanup new"
  have c: "commit old new = effect_body ?m" and t: "trace ?m = trace new @ [Disposed]"
    using commit_changed_live[OF assms] by simp_all
  show "take (Suc (length (trace new))) (trace (commit old new)) = trace new @ [Disposed]"
  proof (cases "canvasRef ?m \<and> pageRef ?m \<noteq> None")
    case True
    then obtain p where "canvasRef ?m" "pageRef ?m = Some p" by auto
    from effect_body_trace[OF this] c t show ?thesis by simp
  next
    case False
    then have "effect_body ?m = ?m" by (intro effect_body_skip) auto
    with c t show ?thesis by simp
  qed
  show "map_option objects (fabricRef (commit old new)) = map_option (\<lambda>_. []) (fabricRef (commit old new))"
  proof (cases "canvasRef ?m \<and> pageRef ?m \<noteq> None")
    case True
    then obtain p where "canvasRef ?m" "pageRef ?m = Some p" by auto
    from effect_body_fresh[OF this] c show ?thesis by auto
  next
    case False
    then have "effect_body ?m = ?m" by (intro effect_body_skip) auto
    with c show ?thesis by simp
  qed
qed

lemma toolConfigEvent_step:
  assumes "toolConfigEvent e"
  shows "step e s = s \<or> (\<exists>new. step e s = commit s new \<and> effectLive new = effectLive s \<and>
           fabricRef new = fabricRef s \<and> trace new = trace s)"
  using assms by (cases e) (auto simp add: selectTool_def handleAnnotationToolSelect_def)



subsection \<open>The surface stays configured for the current tool\<close>

lemma updateDrawingMode_idem:
  "fabricRef (updateDrawingMode (updateDrawingMode s)) = fabricRef (updateDrawingMode s)"
  by (simp add: updateDrawingMode_def Let_def split: option.splits)

lemma updateDrawingMode_cong:
  "deps s' = deps s \<Longrightarrow> fabricRef s' = fabricRef s \<Longrightarrow>
   fabricRef (updateDrawingMode s') = fabricRef (updateDrawingMode s)"
  by (simp add: updateDrawingMode_def deps_def Let_def split: option.splits)

lemma surfaceConsistent_cong:
  "surfaceConsistent s \<Longrightarrow> deps s' = deps s \<Longrightarrow> fabricRef s' = fabricRef s \<Longrightarrow>
   effectLive s' = effectLive s \<Longrightarrow> surfaceConsistent s'"
  using updateDrawingMode_cong[of s' s] by (simp add: surfaceConsistent_def)

lemma surfaceConsistent_idle: "fabricRef s = None \<Longrightarrow> \<not> effectLive s \<Longrightarrow> surfaceConsistent s"
  by (simp add: surfaceConsistent_def updateDrawingMode_def)

lemma effect_body_consistent:
  assumes "fabricRef s = None" "\<not> effectLive s"
  shows "surfaceConsistent (effect_body s)"
proof (cases "canvasRef s \<and> pageRef s \<noteq> None")
  case False
  then have "effect_body s = s" by (intro effect_body_skip) auto
  with assms show ?thesis by (simp add: surfaceConsistent_idle)
next
  case True
  then obtain p where p: "canvasRef s" "pageRef s = Some p" by auto
  from effect_body_run[OF p] obtain s1 c where
    e: "effect_body s =
       (updateDrawingMode (s1\<lparr>fabricRef := Some c,
          trace := trace s1 @ [Created (clientWidth p) (clientHeight p)],
          canvasEl := \<lparr>elWidth = width c, elHeight = height c\<rparr>,
          fabricOnRef := True\<rparr>))\<lparr>effectLive := True\<rparr>"
    by blast
  define s2 where "s2 = s1\<lparr>fabricRef := Some c,
          trace := trace s1 @ [Created (clientWidth p) (clientHeight p)],
          canvasEl := \<lparr>elWidth = width c, elHeight = height c\<rparr>,
          fabricOnRef := True\<rparr>"
  have e': "effect_body s = (updateDrawingMode s2)\<lparr>effectLive := True\<rparr>"
    using e by (simp add: s2_def)
  have "fabricRef s2 \<noteq> None" by (simp add: s2_def)
  then have ne: "fabricRef (updateDrawingMode s2) \<noteq> None"
    by (auto simp add: updateDrawingMode_def Let_def split: option.splits)
  have "fabricRef (updateDrawingMode ((updateDrawingMode s2)\<lparr>effectLive := True\<rparr>)) =
        fabricRef (updateDrawingMode (updateDrawingMode s2))"
    by (rule updateDrawingMode_cong) (simp_all add: deps_def)
  with ne e' show ?thesis
    by (simp add: surfaceConsistent_def updateDrawingMode_idem)
qed

lemma commit_consistent:
  assumes "surfaceConsistent s" "fabricRef new = fabricRef s" "effectLive new = effectLive s"
  shows "surfaceConsistent (commit s new)"
proof (cases "deps new = deps s")
  case True
  then have "commit s new = new" by (simp add: commit_def)
  with surfaceConsistent_cong[OF assms(1) True assms(2,3)] show ?thesis by simp
next
  case False
  show ?thesis
  proof (cases "effectLive new")
    case True
    then have "commit s new = effect_body (effect_cleanup new)"
      using False by (simp add: commit_def)
    moreover have "surfaceConsistent (effect_body (effect_cleanup new))"
      by (rule effect_body_consistent) simp_all
    ultimately show ?thesis by simp
  next
    case f: False
    then have "commit s new = effect_body new"
      using False by (simp add: commit_def)
    moreover have "fabricRef new = None"
      using assms f by (simp add: surfaceConsistent_def)
    then have "surfaceConsistent (effect_body new)"
      using f by (intro effect_body_consistent)
    ultimately show ?thesis by simp
  qed
qed

lemma updateDrawingMode_resized:
  "fabricRef s = Some c \<Longrightarrow>
   fabricRef (updateDrawingMode (s\<lparr>fabricRef := Some (c\<lparr>width := w, height := h\<rparr>)\<rparr>)) =
     map_option (\<lambda>c. c\<lparr>width := w, height := h\<rparr>) (fabricRef (updateDrawingMode s))"
  by (simp add: updateDrawingMode_def Let_def split: option.splits)

lemma updateDrawingMode_drawn:
  "fabricRef s = Some c \<Longrightarrow>
   fabricRef (updateDrawingMode (s\<lparr>fabricRef := Some (c\<lparr>objects := os\<rparr>)\<rparr>)) =
     map_option (\<lambda>c. c\<lparr>objects := os\<rparr>) (fabricRef (updateDrawingMode s))"
  by (simp add: updateDrawingMode_def Let_def split: option.splits)

lemma handleResize_consistent: "surfaceConsistent s \<Longrightarrow> surfaceConsistent (handleResize s)"
  using updateDrawingMode_resized[of s]
  by (auto simp add: surfaceConsistent_def handleResize_def split: option.splits)

lemma draw_consistent: "surfaceConsistent s \<Longrightarrow> surfaceConsistent (draw st s)"
  using updateDrawingMode_drawn[of s]
  by (auto simp add: surfaceConsistent_def draw_def split: option.splits)

lemma step_consistent: "surfaceConsistent s \<Longrightarrow> surfaceConsistent (step e s)"
proof (cases e)
  case (WindowResize w h)
  assume a: "surfaceConsistent s"
  define s1 where "s1 = (case pageRef s of None \<Rightarrow> s
      | Some _ \<Rightarrow> s\<lparr>pageRef := Some \<lparr>clientWidth = w, clientHeight = h\<rparr>\<rparr>)"
  have "surfaceConsistent s1"
    by (rule surfaceConsistent_cong[OF a]) (simp_all add: s1_def deps_def split: option.splits)
  then have "surfaceConsistent (if effectLive s1 then handleResize s1 else s1)"
    by (simp add: handleResize_consistent)
  moreover have "step e s = (if effectLive s1 then handleResize s1 else s1)"
    using WindowResize by (simp add: windowResize_def s1_def Let_def)
  ultimately show ?thesis by simp
next
  case (Draw st)
  assume "surfaceConsistent s"
  then show ?thesis using Draw by (simp add: draw_consistent)
next
  case (DomAttach w h)
  assume a: "surfaceConsistent s"
  show ?thesis using DomAttach a
    by (auto intro: surfaceConsistent_cong[OF a] simp add: deps_def)
next
  case DomDetach
  assume a: "surfaceConsistent s"
  show ?thesis using DomDetach
    by (auto intro: surfaceConsistent_cong[OF a] simp add: deps_def)
qed (auto simp add: clickPrev_def clickNext_def goToPage_def selectTool_def handler_defs
       intro!: commit_consistent split: option.splits)

lemma run_consistent: "surfaceConsistent s \<Longrightarrow> surfaceConsistent (run es s)"
  by (induction es arbitrary: s) (simp_all add: step_consistent)

lemma reachable_consistent: "surfaceConsistent (run es (init lib))"
  by (rule run_consistent) (simp add: init_eq surfaceConsistent_idle)




subsection \<open>A surface has the brush the library installs\<close>









subsection \<open>Every surface created is disposed before the next\<close>

lemma liveSurfaces_append: "liveSurfaces (xs @ ys) = liveSurfaces xs + liveSurfaces ys"
  by (induction xs rule: liveSurfaces.induct) simp_all

lemma effect_cleanup_noLeak: "noLeak s \<Longrightarrow> noLeak (effect_cleanup s)"
  by (auto simp add: noLeak_def effect_cleanup_def dispose_def Let_def liveSurfaces_append
      split: option.splits)

lemma effect_body_noLeak: "noLeak s \<Longrightarrow> noLeak (effect_body s)"
proof (cases "canvasRef s \<and> pageRef s \<noteq> None")
  case False
  assume "noLeak s"
  moreover from False have "effect_body s = s" by (intro effect_body_skip) auto
  ultimately show ?thesis by simp
next
  case True
  assume n: "noLeak s"
  from True obtain p where p: "canvasRef s" "pageRef s = Some p" by auto
  from effect_body_fresh[OF p] effect_body_trace[OF p] n show ?thesis
    by (auto simp add: noLeak_def liveSurfaces_append)
qed

lemma commit_noLeak: "noLeak new \<Longrightarrow> noLeak (commit old new)"
  by (simp add: commit_def effect_body_noLeak effect_cleanup_noLeak)

lemma noLeak_cong:
  "noLeak s \<Longrightarrow> trace s' = trace s \<Longrightarrow> (fabricRef s' = None) = (fabricRef s = None) \<Longrightarrow> noLeak s'"
  by (simp add: noLeak_def)

lemma step_noLeak: "noLeak s \<Longrightarrow> noLeak (step e s)"
proof (cases e)
  case (WindowResize w h)
  assume "noLeak s"
  then show ?thesis using WindowResize
    by (auto simp add: noLeak_def windowResize_def handleResize_def Let_def split: option.splits)
next
  case (Draw st)
  assume "noLeak s"
  then show ?thesis using Draw
    by (auto simp add: noLeak_def draw_def split: option.splits)
qed (auto simp add: clickPrev_def clickNext_def goToPage_def selectTool_def handler_defs
       intro!: commit_noLeak elim: noLeak_cong split: option.splits list.splits)

lemma run_noLeak: "noLeak s \<Longrightarrow> noLeak (run es s)"
  by (induction es arbitrary: s) (simp_all add: step_noLeak)

subsection \<open>The example sessions, evaluated\<close>

lemmas model_defs = init_eq commit_def deps_def effect_body_def effect_cleanup_def dispose_def
  updateDrawingMode_def new_Canvas_def handleResize_def windowResize_def draw_def
  goToPage_def clickPrev_def clickNext_def selectTool_def handler_defs Let_def

lemma session_selected_eq:
  "session_selected = \<lparr>file' = Some 7, numPages = 0, currentPage = 1, annotationMode = None,
      penColor = ''#000000'', penSize = 2, highlighterColor = ''#FFFF00'', highlighterSize = 10,
      canvasRef = False, pageRef = None, fabricRef = None, effectLive = False, trace = [],
      defaultBrush = Some pencilBrush,
      canvasEl = \<lparr>elWidth = 300, elHeight = 150\<rparr>, fabricOnRef = False\<rparr>"
  by (simp add: session_selected_def model_defs)

lemma session_loaded_eq:
  "session_loaded = \<lparr>file' = Some 7, numPages = 3, currentPage = 1, annotationMode = None,
      penColor = ''#000000'', penSize = 2, highlighterColor = ''#FFFF00'', highlighterSize = 10,
      canvasRef = True, pageRef = Some \<lparr>clientWidth = 600, clientHeight = 800\<rparr>,
      fabricRef = None, effectLive = False, trace = [],
      defaultBrush = Some pencilBrush,
      canvasEl = \<lparr>elWidth = 300, elHeight = 150\<rparr>, fabricOnRef = False\<rparr>"
  by (simp add: session_loaded_def model_defs)

lemma session_pen_eq:
  "session_pen = \<lparr>file' = Some 7, numPages = 3, currentPage = 1, annotationMode = Some Pen,
      penColor = ''#000000'', penSize = 2, highlighterColor = ''#FFFF00'', highlighterSize = 10,
      canvasRef = True, pageRef = Some \<lparr>clientWidth = 600, clientHeight = 800\<rparr>,
      fabricRef = Some \<lparr>isDrawingMode = True, width = 600, height = 800,
        preserveObjectStacking = True,
        freeDrawingBrush = Some \<lparr>color = ''#000000'', brushWidth = 2, opacity = Some 1,
          strokeLineCap = ''round'', strokeLineJoin = ''round'', mode = None\<rparr>,
        objects = []\<rparr>,
      effectLive = True, trace = [Created 600 800],
      defaultBrush = Some pencilBrush,
      canvasEl = \<lparr>elWidth = 600, elHeight = 800\<rparr>, fabricOnRef = True\<rparr>"
  by (simp add: session_pen_def model_defs pencilBrush_def)

lemma session_drawn_eq:
  "session_drawn = \<lparr>file' = Some 7, numPages = 3, currentPage = 1, annotationMode = Some Pen,
      penColor = ''#000000'', penSize = 2, highlighterColor = ''#FFFF00'', highlighterSize = 10,
      canvasRef = True, pageRef = Some \<lparr>clientWidth = 600, clientHeight = 800\<rparr>,
      fabricRef = Some \<lparr>isDrawingMode = True, width = 600, height = 800,
        preserveObjectStacking = True,
        freeDrawingBrush = Some \<lparr>color = ''#000000'', brushWidth = 2, opacity = Some 1,
          strokeLineCap = ''round'', strokeLineJoin = ''round'', mode = None\<rparr>,
        objects = [[(10, 10), (20, 25)]]\<rparr>,
      effectLive = True, trace = [Created 600 800],
      defaultBrush = Some pencilBrush,
      canvasEl = \<lparr>elWidth = 600, elHeight = 800\<rparr>, fabricOnRef = True\<rparr>"
  by (simp add: session_drawn_def model_defs pencilBrush_def)

lemma session_highlighter_eq:
  "session_highlighter = \<lparr>file' = Some 7, numPages = 3, currentPage = 1,
      annotationMode = Some Highlighter,
      penColor = ''#FF0000'', penSize = 5, highlighterColor = ''#FFFF00'', highlighterSize = 10,
      canvasRef = True, pageRef = Some \<lparr>clientWidth = 600, clientHeight = 800\<rparr>,
      fabricRef = Some \<lparr>isDrawingMode = True, width = 600, height = 800,
        preserveObjectStacking = True,
        freeDrawingBrush = Some \<lparr>color = ''#FFFF00'', brushWidth = 10, opacity = Some (1 / 2),
          strokeLineCap = ''round'', strokeLineJoin = ''round'', mode = None\<rparr>,
        objects = []\<rparr>,
      effectLive = True,
      trace = [Created 600 800, Disposed, Created 600 800, Disposed, Created 600 800, Disposed,
        Created 600 800],
      defaultBrush = Some pencilBrush,
      canvasEl = \<lparr>elWidth = 600, elHeight = 800\<rparr>, fabricOnRef = True\<rparr>"
  by (simp add: session_highlighter_def model_defs pencilBrush_def)


lemma session_stale_eq:
  "session_stale = \<lparr>file' = Some 8, numPages = 3, currentPage = 3, annotationMode = None,
      penColor = ''#000000'', penSize = 2, highlighterColor = ''#FFFF00'', highlighterSize = 10,
      canvasRef = True, pageRef = Some \<lparr>clientWidth = 600, clientHeight = 800\<rparr>,
      fabricRef = Some \<lparr>isDrawingMode = False, width = 600, height = 800,
        preserveObjectStacking = True, freeDrawingBrush = Some pencilBrush, objects = []\<rparr>,
      effectLive = True,
      trace = [Created 600 800, Disposed, Created 600 800, Disposed, Created 600 800, Disposed,
        Created 600 800, Disposed, Created 600 800],
      defaultBrush = Some pencilBrush,
      canvasEl = \<lparr>elWidth = 600, elHeight = 800\<rparr>, fabricOnRef = True\<rparr>"
  by (simp add: session_stale_def model_defs)

lemma session_zero_eq:
  "session_zero = \<lparr>file' = Some 7, numPages = 3, currentPage = 1, annotationMode = Some Pen,
      penColor = ''#000000'', penSize = 2, highlighterColor = ''#FFFF00'', highlighterSize = 10,
      canvasRef = True, pageRef = Some \<lparr>clientWidth = 0, clientHeight = 0\<rparr>,
      fabricRef = Some \<lparr>isDrawingMode = True, width = 300, height = 150,
        preserveObjectStacking = True,
        freeDrawingBrush = Some \<lparr>color = ''#000000'', brushWidth = 2, opacity = Some 1,
          strokeLineCap = ''round'', strokeLineJoin = ''round'', mode = None\<rparr>,
        objects = []\<rparr>,
      effectLive = True, trace = [Created 0 0],
      defaultBrush = Some pencilBrush,
      canvasEl = \<lparr>elWidth = 300, elHeight = 150\<rparr>, fabricOnRef = True\<rparr>"
  by (simp add: session_zero_def model_defs pencilBrush_def)

lemma session_skipped_eq:
  "session_skipped = \<lparr>file' = Some 7, numPages = 3, currentPage = 1, annotationMode = Some Pen,
      penColor = ''#000000'', penSize = 2, highlighterColor = ''#FFFF00'', highlighterSize = 10,
      canvasRef = True, pageRef = Some \<lparr>clientWidth = 600, clientHeight = 800\<rparr>,
      fabricRef = None, effectLive = False, trace = [],
      defaultBrush = Some pencilBrush,
      canvasEl = \<lparr>elWidth = 300, elHeight = 150\<rparr>, fabricOnRef = False\<rparr>"
  by (simp add: session_skipped_def model_defs)

lemma session_unlaid_eq:
  "session_unlaid = \<lparr>file' = Some 7, numPages = 3, currentPage = 1, annotationMode = None,
      penColor = ''#000000'', penSize = 2, highlighterColor = ''#FFFF00'', highlighterSize = 10,
      canvasRef = True, pageRef = Some \<lparr>clientWidth = 0, clientHeight = 0\<rparr>,
      fabricRef = None, effectLive = False, trace = [],
      defaultBrush = Some pencilBrush,
      canvasEl = \<lparr>elWidth = 300, elHeight = 150\<rparr>, fabricOnRef = False\<rparr>"
  by (simp add: session_unlaid_def model_defs)




section \<open>The claims\<close>

text \<open>
  C1 (as amended). \<open>handlePageChange\<close> stores any target, in range or not, and the
  surface is recreated only because \<open>currentPage\<close> is a dependency of the effect:
  a target equal to the current page changes nothing; for a target different from the
  current page, with the canvas element and the page container attached,
  \<open>currentPage\<close> becomes the target, and if a surface is active it is disposed exactly
  once and exactly one new surface is created after it, while if no surface is active
  (the effect has not yet run past its guard) one surface is created and none is
  disposed.
\<close>

theorem goToPage_lifecycle:
  "(p = currentPage s \<longrightarrow> goToPage p s = s) \<and>
   (p \<noteq> currentPage s \<and> canvasRef s \<and> pageRef s = Some pg \<and> effectLive s \<and> fabricRef s \<noteq> None \<longrightarrow>
      currentPage (goToPage p s) = p \<and>
      trace (goToPage p s) = trace s @ [Disposed, Created (clientWidth pg) (clientHeight pg)]) \<and>
   (p \<noteq> currentPage s \<and> canvasRef s \<and> pageRef s = Some pg \<and> \<not> effectLive s \<and> fabricRef s = None \<longrightarrow>
      currentPage (goToPage p s) = p \<and>
      trace (goToPage p s) = trace s @ [Created (clientWidth pg) (clientHeight pg)])"
proof (intro conjI impI)
  assume "p = currentPage s"
  then show "goToPage p s = s" by (simp add: goToPage_same)
next
  assume a: "p \<noteq> currentPage s \<and> canvasRef s \<and> pageRef s = Some pg \<and> effectLive s \<and> fabricRef s \<noteq> None"
  let ?new = "handlePageChange p s"
  have d: "deps ?new \<noteq> deps s" using a by (simp add: deps_def handlePageChange_def)
  have l: "effectLive ?new" "fabricRef ?new \<noteq> None" using a by (simp_all add: handlePageChange_def)
  have c: "goToPage p s = effect_body (effect_cleanup ?new)"
    using commit_changed_live(1)[OF d l] by (simp add: goToPage_def)
  have t: "trace (effect_cleanup ?new) = trace s @ [Disposed]"
    using commit_changed_live(2)[OF d l] by (simp add: handlePageChange_def)
  have "trace (effect_body (effect_cleanup ?new)) =
      trace (effect_cleanup ?new) @ (if fabricRef (effect_cleanup ?new) = None then [] else [Disposed]) @
      [Created (clientWidth pg) (clientHeight pg)]"
    using a by (intro effect_body_trace) (simp_all add: handlePageChange_def)
  with c t show "trace (goToPage p s) = trace s @ [Disposed, Created (clientWidth pg) (clientHeight pg)]"
    by simp
next
  assume a: "p \<noteq> currentPage s \<and> canvasRef s \<and> pageRef s = Some pg \<and> \<not> effectLive s \<and> fabricRef s = None"
  let ?new = "handlePageChange p s"
  have d: "deps ?new \<noteq> deps s" using a by (simp add: deps_def handlePageChange_def)
  have l: "\<not> effectLive ?new" using a by (simp_all add: handlePageChange_def)
  have c: "goToPage p s = effect_body ?new"
    using commit_changed_idle[OF d l] by (simp add: goToPage_def)
  have "trace (effect_body ?new) =
      trace ?new @ (if fabricRef ?new = None then [] else [Disposed]) @
      [Created (clientWidth pg) (clientHeight pg)]"
    using a by (intro effect_body_trace) (simp_all add: handlePageChange_def)
  with c a show "trace (goToPage p s) = trace s @ [Created (clientWidth pg) (clientHeight pg)]"
    by (simp add: handlePageChange_def)
qed simp_all

text \<open>With the pen selected on page 1 of 3, going to page 2 disposes the surface and
  creates a new one; going to page 1 does nothing.\<close>

theorem goToPage_lifecycle_witness:
  "currentPage (goToPage 2 session_pen) = 2 \<and>
   trace (goToPage 2 session_pen) = [Created 600 800, Disposed, Created 600 800] \<and>
   goToPage 1 session_pen = session_pen"
  using goToPage_lifecycle[of 2 session_pen "\<lparr>clientWidth = 600, clientHeight = 800\<rparr>"]
    goToPage_lifecycle[of 1 session_pen]
  by (simp add: session_pen_eq)

text \<open>The claim as written fails twice. Right after file 7 has loaded (3 pages, page 1,
  elements attached) no surface exists, so going to the valid page 2 creates a surface
  without any teardown. And with a surface active, going to the valid page 1, the current
  one, causes no lifecycle event at all.\<close>

theorem goToPage_lifecycle_counterexample:
  "file' session_loaded = Some 7 \<and> numPages session_loaded = 3 \<and>
   currentPage session_loaded = 1 \<and> trace session_loaded = [] \<and>
   currentPage (goToPage 2 session_loaded) = 2 \<and>
   trace (goToPage 2 session_loaded) = [Created 600 800] \<and>
   file' session_pen = Some 7 \<and> numPages session_pen = 3 \<and> fabricRef session_pen \<noteq> None \<and>
   trace (goToPage 1 session_pen) = trace session_pen"
  by (simp add: session_loaded_eq session_pen_eq model_defs pencilBrush_def)

text \<open>
  C2 (as amended). \<open>handlePageChange\<close> has no range check: it stores whatever target it
  is given. The guard is the disabled state of the two buttons: at \<open>currentPage = 1\<close> the
  previous button (target 0) and at \<open>currentPage = numPages\<close> the next button (target
  \<open>numPages + 1\<close>) are disabled, and a click then leaves the whole state unchanged
  (same \<open>currentPage\<close>, same surface, no lifecycle event). While
  \<open>1 \<le> currentPage \<le> numPages\<close> a click either does nothing or goes to a page
  that is again within range.
\<close>

theorem buttons_guard_out_of_range:
  "handlePageChange p s = s\<lparr>currentPage := p\<rparr> \<and>
   (currentPage s = 1 \<longrightarrow> clickPrev s = s) \<and>
   (currentPage s = numPages s \<longrightarrow> clickNext s = s) \<and>
   (pageInRange s \<longrightarrow>
      (clickPrev s = s \<or> clickPrev s = goToPage (currentPage s - 1) s \<and> pageInRange (clickPrev s)) \<and>
      (clickNext s = s \<or> clickNext s = goToPage (currentPage s + 1) s \<and> pageInRange (clickNext s)))"
  by (auto simp add: handlePageChange_def clickPrev_def clickNext_def pageInRange_def)

text \<open>On page 1 of 3 the previous button does nothing and the next button leads to page
  2; on page 3 of 3 the next button does nothing.\<close>

theorem buttons_guard_out_of_range_witness:
  "currentPage session_pen = 1 \<and> clickPrev session_pen = session_pen \<and>
   pageInRange session_pen \<and> currentPage (clickNext session_pen) = 2 \<and>
   pageInRange (clickNext session_pen) \<and>
   currentPage session_stale = numPages session_stale \<and> clickNext session_stale = session_stale"
  using buttons_guard_out_of_range[of 0 session_pen] buttons_guard_out_of_range[of 0 session_stale]
  by (simp add: session_pen_eq session_stale_eq pageInRange_def clickNext_def)

text \<open>The claim as written fails: on page 1 of 3 the handler accepts target 0, stores
  it and the surface is torn down and recreated; and through the buttons, right after a
  file was picked (\<open>numPages\<close> still 0) the next button is enabled and leads to page 2,
  a target above \<open>numPages\<close>.\<close>

theorem page_change_out_of_range_counterexample:
  "currentPage session_pen = 1 \<and> numPages session_pen = 3 \<and>
   currentPage (goToPage 0 session_pen) = 0 \<and>
   trace (goToPage 0 session_pen) = trace session_pen @ [Disposed, Created 600 800] \<and>
   numPages session_selected = 0 \<and> currentPage session_selected = 1 \<and>
   currentPage (step ClickNext session_selected) = 2"
  by (simp add: session_pen_eq session_selected_eq model_defs pencilBrush_def)

text \<open>
  C3 (as amended). \<open>handleAnnotationToolSelect\<close> itself only stores the tool. An event
  on the tool buttons or on the colour and size inputs that leaves the tool
  configuration as it was leaves the whole state, strokes included, as it was. One that
  changes the configuration while a surface is active disposes that surface; the surface
  present afterwards, if any, is a new one and holds no strokes.
\<close>

theorem tool_change_recreates_surface:
  "handleAnnotationToolSelect t s = s\<lparr>annotationMode := Some t\<rparr> \<and>
   (toolConfigEvent e \<and> deps (step e s) = deps s \<longrightarrow> step e s = s) \<and>
   (toolConfigEvent e \<and> deps (step e s) \<noteq> deps s \<and> effectLive s \<and> fabricRef s \<noteq> None \<longrightarrow>
      take (Suc (length (trace s))) (trace (step e s)) = trace s @ [Disposed] \<and>
      (\<forall>c. fabricRef (step e s) = Some c \<longrightarrow> objects c = []))"
proof (intro conjI impI)
  show "handleAnnotationToolSelect t s = s\<lparr>annotationMode := Some t\<rparr>"
    by (simp add: handleAnnotationToolSelect_def)
next
  assume a: "toolConfigEvent e \<and> deps (step e s) = deps s"
  then show "step e s = s"
    by (cases e)
      (auto simp add: selectTool_def handleAnnotationToolSelect_def commit_def deps_def
        intro!: app.equality)
next
  assume a: "toolConfigEvent e \<and> deps (step e s) \<noteq> deps s \<and> effectLive s \<and> fabricRef s \<noteq> None"
  then have "step e s \<noteq> s" by auto
  with a toolConfigEvent_step[of e s] obtain new where
    n: "step e s = commit s new" "effectLive new = effectLive s" "fabricRef new = fabricRef s"
       "trace new = trace s"
    by auto
  from a n have d: "deps new \<noteq> deps s" by simp
  from a n have l: "effectLive new" "fabricRef new \<noteq> None" by simp_all
  from commit_discards(1)[OF d l] n
  show "take (Suc (length (trace s))) (trace (step e s)) = trace s @ [Disposed]" by simp
  from commit_discards(2)[OF d l] n
  show "\<forall>c. fabricRef (step e s) = Some c \<longrightarrow> objects c = []" by auto
qed

text \<open>After one stroke with the pen, selecting the pen again keeps the stroke; selecting
  the highlighter disposes the surface and the new one is empty.\<close>

theorem tool_change_recreates_surface_witness:
  "step (SelectTool Pen) session_drawn = session_drawn \<and>
   deps (step (SelectTool Highlighter) session_drawn) \<noteq> deps session_drawn \<and>
   take 2 (trace (step (SelectTool Highlighter) session_drawn)) = [Created 600 800, Disposed] \<and>
   map_option objects (fabricRef (step (SelectTool Highlighter) session_drawn)) = Some []"
  using tool_change_recreates_surface[of Pen session_drawn "SelectTool Pen"]
    tool_change_recreates_surface[of Highlighter session_drawn "SelectTool Highlighter"]
  by (simp add: session_drawn_eq model_defs pencilBrush_def)

text \<open>The claim as written fails: the surface holds one stroke, the user selects the
  highlighter, and the surface that results holds none.\<close>

theorem select_tool_keeps_strokes_counterexample:
  "map_option objects (fabricRef session_drawn) = Some [[(10, 10), (20, 25)]] \<and>
   map_option objects (fabricRef (step (SelectTool Highlighter) session_drawn)) = Some [] \<and>
   trace (step (SelectTool Highlighter) session_drawn) =
     [Created 600 800, Disposed, Created 600 800]"
  by (simp add: session_drawn_eq model_defs pencilBrush_def)

text \<open>
  C4 (as amended). Selecting a file sets \<open>currentPage\<close> to 1, and
  \<open>1 \<le> currentPage\<close> holds in every state the component reaches from its first
  render. The upper bound \<open>currentPage \<le> numPages\<close> is not an invariant: it does
  not hold between the selection of the first file and the report of its page count, and
  a page-count report is stored without being compared to \<open>currentPage\<close>. Once
  \<open>1 \<le> currentPage \<le> numPages\<close> holds it is preserved by the previous and next
  buttons, by a file selection (with or without a file), and by a page-count report
  \<open>n\<close> with \<open>currentPage \<le> n\<close>.
\<close>

theorem page_bounds:
  "currentPage (step (FileChange (Some (f # fs))) s) = 1 \<and>
   1 \<le> currentPage (run es (init lib)) \<and>
   (pageInRange s \<longrightarrow> pageInRange (step ClickPrev s) \<and> pageInRange (step ClickNext s)) \<and>
   (pageInRange s \<longrightarrow> pageInRange (step (FileChange files) s)) \<and>
   (file' s \<noteq> None \<and> 1 \<le> currentPage s \<and> currentPage s \<le> n \<longrightarrow>
      pageInRange (step (LoadSuccess n) s))"
proof -
  have "1 \<le> currentPage (run es (init lib))"
    by (rule run_currentPage_lower) (simp add: init_eq)
  moreover have "pageInRange s \<longrightarrow> pageInRange (step ClickPrev s) \<and> pageInRange (step ClickNext s)"
    by (auto simp add: pageInRange_def clickPrev_def clickNext_def)
  moreover have "pageInRange s \<longrightarrow> pageInRange (step (FileChange files) s)"
    by (auto simp add: pageInRange_def onFileChange_def selectedFile_def
        split: option.splits list.splits)
  ultimately show ?thesis
    by (auto simp add: pageInRange_def onFileChange_def selectedFile_def onDocumentLoadSuccess_def)
qed

text \<open>On page 1 of 3: picking file 8 gives page 1; the buttons and a report of 3 pages
  keep the page within range.\<close>

theorem page_bounds_witness:
  "currentPage (step (FileChange (Some [8])) session_loaded) = 1 \<and>
   1 \<le> currentPage (run [FileChange (Some [7]), ClickNext] (init None)) \<and>
   pageInRange session_loaded \<and>
   pageInRange (step ClickPrev session_loaded) \<and> pageInRange (step ClickNext session_loaded) \<and>
   pageInRange (step (FileChange (Some [8])) session_loaded) \<and>
   pageInRange (step (LoadSuccess 3) session_loaded)"
  using page_bounds[of 8 "[]" session_loaded "[FileChange (Some [7]), ClickNext]" None
      "Some [8]" 3]
  by (simp add: session_loaded_eq pageInRange_def)

text \<open>The claim as written fails: after the first file is picked the state has a file,
  page 1 and a page count of 0; and a session on page 3 of 3 (the count still that of the
  previous file) is within range until the new file reports 2 pages.\<close>

theorem page_invariant_counterexample:
  "file' session_selected = Some 7 \<and> currentPage session_selected = 1 \<and>
   numPages session_selected = 0 \<and> \<not> pageInRange session_selected \<and>
   file' session_stale = Some 8 \<and> pageInRange session_stale \<and>
   currentPage (step (LoadSuccess 2) session_stale) = 3 \<and>
   numPages (step (LoadSuccess 2) session_stale) = 2 \<and>
   \<not> pageInRange (step (LoadSuccess 2) session_stale)"
  by (simp add: session_selected_eq session_stale_eq pageInRange_def onDocumentLoadSuccess_def)

text \<open>
  C5. Whatever page was current, \<open>onFileChange\<close> with a selected file stores that file
  and sets \<open>currentPage\<close> to 1; the same holds after React has committed the update.
\<close>

theorem loadFile_resets_currentPage:
  "file' (onFileChange (Some (f # fs)) s) = Some f \<and>
   currentPage (onFileChange (Some (f # fs)) s) = 1 \<and>
   file' (step (FileChange (Some (f # fs))) s) = Some f \<and>
   currentPage (step (FileChange (Some (f # fs))) s) = 1"
  by (simp add: onFileChange_def selectedFile_def)

text \<open>On page 3 of file 8, picking file 9 gives page 1 of file 9.\<close>

theorem loadFile_resets_currentPage_witness:
  "currentPage session_stale = 3 \<and>
   file' (onFileChange (Some [9]) session_stale) = Some 9 \<and>
   currentPage (onFileChange (Some [9]) session_stale) = 1 \<and>
   file' (step (FileChange (Some [9])) session_stale) = Some 9 \<and>
   currentPage (step (FileChange (Some [9])) session_stale) = 1"
  using loadFile_resets_currentPage[of 9 "[]" session_stale]
  by (simp add: session_stale_eq)







text \<open>
  C8 (as amended). The effect is a silent no-op (the state is returned unchanged, no
  surface is created) exactly when the canvas element or the page container is not
  attached. The size of the container is not examined: with both attached a surface is
  created and the resize listener registered, and the measured size is passed to the
  constructor. A measured dimension other than 0 becomes the dimension of the surface;
  for a measured dimension of 0 the drawing library takes the canvas element's own
  dimension instead (300 by 150 for a fresh element). A run that stopped at the guard
  registers no listener, so a later window resize neither creates a surface nor records a
  lifecycle event; the initialization is attempted again only when the effect next runs.
\<close>

theorem initialize_guard:
  "(\<not> canvasRef s \<or> pageRef s = None \<longrightarrow> effect_body s = s) \<and>
   (canvasRef s \<and> pageRef s = Some p \<longrightarrow>
      (\<exists>c. fabricRef (effect_body s) = Some c \<and> objects c = [] \<and>
           (clientWidth p \<noteq> 0 \<longrightarrow> width c = clientWidth p) \<and>
           (clientHeight p \<noteq> 0 \<longrightarrow> height c = clientHeight p) \<and>
           (clientWidth p = 0 \<and> fabricRef s = None \<longrightarrow> width c = elWidth (canvasEl s)) \<and>
           (clientHeight p = 0 \<and> fabricRef s = None \<longrightarrow> height c = elHeight (canvasEl s))) \<and>
      trace (effect_body s) =
        trace s @ (if fabricRef s = None then [] else [Disposed]) @
        [Created (clientWidth p) (clientHeight p)] \<and>
      effectLive (effect_body s)) \<and>
   (\<not> effectLive s \<longrightarrow>
      fabricRef (windowResize w h s) = fabricRef s \<and> trace (windowResize w h s) = trace s \<and>
      \<not> effectLive (windowResize w h s))"
proof -
  have "\<not> effectLive s \<longrightarrow>
      fabricRef (windowResize w h s) = fabricRef s \<and> trace (windowResize w h s) = trace s \<and>
      \<not> effectLive (windowResize w h s)"
    by (simp add: windowResize_def Let_def split: option.splits)
  then show ?thesis
    using effect_body_skip[of s] effect_body_trace[of s p] effect_body_surface[of s p]
      effect_body_live[of s p]
    by blast
qed

text \<open>Before the elements are attached the effect changes nothing; once they are
  attached at 600 by 800 it creates a surface of that size; attached at 0 by 0, with a
  fresh canvas element, it creates a surface of 300 by 150; after a skipped run a window
  resize creates nothing.\<close>

theorem initialize_guard_witness:
  "effect_body session_selected = session_selected \<and>
   trace (effect_body session_loaded) = [Created 600 800] \<and>
   effectLive (effect_body session_loaded) \<and>
   map_option width (fabricRef (effect_body session_loaded)) = Some 600 \<and>
   map_option height (fabricRef (effect_body session_loaded)) = Some 800 \<and>
   trace (effect_body session_unlaid) = [Created 0 0] \<and>
   map_option width (fabricRef (effect_body session_unlaid)) = Some 300 \<and>
   map_option height (fabricRef (effect_body session_unlaid)) = Some 150 \<and>
   fabricRef (windowResize 640 480 session_skipped) = None \<and>
   trace (windowResize 640 480 session_skipped) = []"
proof -
  let ?p = "\<lparr>clientWidth = 600, clientHeight = 800\<rparr>"
  let ?z = "\<lparr>clientWidth = 0, clientHeight = 0\<rparr>"
  have a: "effect_body session_selected = session_selected"
    using initialize_guard[of session_selected ?p 640 480] by (simp add: session_selected_eq)
  have "canvasRef session_loaded \<and> pageRef session_loaded = Some ?p"
    by (simp add: session_loaded_eq)
  with initialize_guard[of session_loaded ?p 640 480]
  obtain c where b: "fabricRef (effect_body session_loaded) = Some c" "width c = 600"
      "height c = 800"
      "trace (effect_body session_loaded) =
         trace session_loaded @ (if fabricRef session_loaded = None then [] else [Disposed]) @
         [Created 600 800]"
      "effectLive (effect_body session_loaded)"
    by auto
  have u: "canvasRef session_unlaid \<and> pageRef session_unlaid = Some ?z"
    "fabricRef session_unlaid = None" "canvasEl session_unlaid = \<lparr>elWidth = 300, elHeight = 150\<rparr>"
    "trace session_unlaid = []"
    by (simp_all add: session_unlaid_eq)
  with initialize_guard[of session_unlaid ?z 640 480]
  obtain c' where z: "fabricRef (effect_body session_unlaid) = Some c'" "width c' = 300"
      "height c' = 150" "trace (effect_body session_unlaid) = [Created 0 0]"
    by auto
  have "\<not> effectLive session_skipped" by (simp add: session_skipped_eq)
  with initialize_guard[of session_skipped ?p 640 480]
  have c: "fabricRef (windowResize 640 480 session_skipped) = fabricRef session_skipped"
    "trace (windowResize 640 480 session_skipped) = trace session_skipped"
    by simp_all
  from a b z c show ?thesis by (simp add: session_loaded_eq session_skipped_eq)
qed

text \<open>The claim as written fails: with the page container attached at zero by zero,
  selecting the pen is not a no-op: the constructor is called with width 0 and height 0
  and a surface exists afterwards (of 300 by 150, the size of the fresh canvas element);
  and after an initialization that was skipped, a window resize (the elements now
  attached) does not retry it.\<close>

theorem zero_size_initialize_counterexample:
  "pageRef session_zero = Some \<lparr>clientWidth = 0, clientHeight = 0\<rparr> \<and>
   trace session_zero = [Created 0 0] \<and>
   fabricRef session_zero \<noteq> None \<and> effectLive session_zero \<and>
   map_option width (fabricRef session_zero) = Some 300 \<and>
   map_option height (fabricRef session_zero) = Some 150 \<and>
   canvasRef session_skipped \<and> annotationMode session_skipped = Some Pen \<and>
   fabricRef session_skipped = None \<and>
   fabricRef (step (WindowResize 640 480) session_skipped) = None \<and>
   trace (step (WindowResize 640 480) session_skipped) = []"
  by (simp add: session_zero_eq session_skipped_eq windowResize_def)

text \<open>
  C9. \<open>handleResize\<close> is idempotent, and so is a window resize to given bounds. With
  a surface and the page container present, \<open>handleResize\<close> sets the width and height
  of the surface to the container's and changes nothing else; in every case the strokes
  of the surface, with their coordinates, are the same after as before.
\<close>

theorem resize_idempotent_keeps_strokes:
  "handleResize (handleResize s) = handleResize s \<and>
   handleResize (s\<lparr>fabricRef := Some c, pageRef := Some p\<rparr>) =
     s\<lparr>fabricRef := Some (c\<lparr>width := clientWidth p, height := clientHeight p\<rparr>), pageRef := Some p\<rparr> \<and>
   map_option objects (fabricRef (handleResize s)) = map_option objects (fabricRef s) \<and>
   windowResize w h (windowResize w h s) = windowResize w h s \<and>
   map_option objects (fabricRef (windowResize w h s)) = map_option objects (fabricRef s)"
  by (simp add: handleResize_def windowResize_def Let_def split: option.splits)

text \<open>A surface of 600 by 800 with one stroke is resized to 640 by 480: the bounds
  follow, the stroke stays, and a second resize changes nothing more.\<close>

theorem resize_idempotent_keeps_strokes_witness:
  "windowResize 640 480 (windowResize 640 480 session_drawn) = windowResize 640 480 session_drawn \<and>
   map_option width (fabricRef (windowResize 640 480 session_drawn)) = Some 640 \<and>
   map_option height (fabricRef (windowResize 640 480 session_drawn)) = Some 480 \<and>
   map_option objects (fabricRef (windowResize 640 480 session_drawn)) =
     Some [[(10, 10), (20, 25)]] \<and>
   handleResize (handleResize session_drawn) = handleResize session_drawn"
  using resize_idempotent_keeps_strokes[of session_drawn _ _ 640 480]
  by (simp add: session_drawn_eq windowResize_def handleResize_def)

text \<open>
  C10. When the file input delivers no file (\<open>files\<close> is null or empty),
  \<open>onFileChange\<close> returns the state as it was, and so does the whole event: the loaded
  file, the page, the page count, the surface and the lifecycle trace are unchanged.
\<close>

theorem onFileChange_no_file_unchanged:
  "onFileChange None s = s \<and> onFileChange (Some []) s = s \<and>
   step (FileChange None) s = s \<and> step (FileChange (Some [])) s = s"
  by (simp add: onFileChange_def selectedFile_def)

text \<open>With a stroke drawn on page 1 of file 7, a cancelled file dialog changes nothing.\<close>

theorem onFileChange_no_file_unchanged_witness:
  "step (FileChange None) session_drawn = session_drawn \<and>
   step (FileChange (Some [])) session_drawn = session_drawn \<and>
   file' (step (FileChange None) session_drawn) = Some 7 \<and>
   trace (step (FileChange None) session_drawn) = [Created 600 800]"
  using onFileChange_no_file_unchanged[of session_drawn]
  by (simp add: session_drawn_eq)

section \<open>Further properties\<close>

text \<open>
  X1. In every state the component reaches, the surfaces created so far and not yet
  disposed number exactly one if \<open>fabricRef\<close> holds a canvas and none otherwise, and the
  cleanup of the effect is pending exactly while \<open>fabricRef\<close> holds a canvas: no
  surface is ever left undisposed when the next one is created.
\<close>

theorem surfaces_never_leak:
  "liveSurfaces (trace (run es (init lib))) = (if fabricRef (run es (init lib)) = None then 0 else 1) \<and>
   effectLive (run es (init lib)) = (fabricRef (run es (init lib)) \<noteq> None)"
proof -
  have "noLeak (run es (init lib))"
    by (rule run_noLeak) (simp add: init_eq noLeak_def)
  moreover have "surfaceConsistent (run es (init lib))"
    by (rule reachable_consistent)
  ultimately show ?thesis by (simp add: noLeak_def surfaceConsistent_def)
qed

theorem surfaces_never_leak_witness:
  "liveSurfaces (trace session_highlighter) = 1 \<and> fabricRef session_highlighter \<noteq> None \<and>
   effectLive session_highlighter \<and>
   liveSurfaces (trace session_skipped) = 0 \<and> fabricRef session_skipped = None"
  using surfaces_never_leak[of
      "[FileChange (Some [7]), LoadSuccess 3, DomAttach 600 800, SelectTool Pen,
        SetPenColor ''#FF0000'', SetPenSize 5, SelectTool Highlighter]" "Some pencilBrush",
      folded session_highlighter_def]
    surfaces_never_leak[of
      "[FileChange (Some [7]), SelectTool Pen, LoadSuccess 3, DomAttach 600 800]"
      "Some pencilBrush", folded session_skipped_def]
  by (simp add: session_highlighter_eq session_skipped_eq)

text \<open>
  X2. On a canvas without a free-drawing brush, \<open>updateDrawingMode\<close> writes only
  \<open>isDrawingMode\<close>: true if a tool is selected, false otherwise.
\<close>

theorem updateDrawingMode_without_brush:
  "fabricRef (updateDrawingMode (s\<lparr>fabricRef := Some (c\<lparr>freeDrawingBrush := None\<rparr>)\<rparr>)) =
     Some (c\<lparr>freeDrawingBrush := None, isDrawingMode := (annotationMode s \<noteq> None)\<rparr>)"
proof (cases "annotationMode s")
  case None
  then show ?thesis by (simp add: updateDrawingMode_def Let_def)
next
  case (Some t)
  then show ?thesis by (cases t) (simp_all add: updateDrawingMode_def Let_def)
qed

theorem updateDrawingMode_without_brush_witness:
  "map_option freeDrawingBrush (fabricRef (run [FileChange (Some [7]), DomAttach 600 800,
      SelectTool Pen] (init None))) = Some None \<and>
   fabricRef (updateDrawingMode (session_pen\<lparr>fabricRef :=
      Some (new_Canvas (Some pencilBrush) (canvasEl session_pen) 1 1
        \<lparr>freeDrawingBrush := None\<rparr>)\<rparr>)) =
     Some (new_Canvas None (canvasEl session_pen) 1 1)"
  using updateDrawingMode_without_brush[where s = session_pen
      and c = "new_Canvas (Some pencilBrush) (canvasEl session_pen) 1 1"]
  by (simp add: session_pen_eq new_Canvas_def model_defs)

end
